theory Spec2Isabelle
  imports Main "HOL-Library.Sublist"
begin

section \<open>JavaScript values and strings\<close>

text \<open>
  A JavaScript string is modelled as a \<open>string\<close>; a \<open>char\<close> stands for a UTF-16 code
  unit below 256 (the Latin-1 range). Numbers are modelled as integers, which is what line
  and column numbers are; \<open>NaN\<close> is a value of its own.
\<close>

datatype jsval = Undefined | Null | Bool bool | Num int | NaN | Str string | Obj

datatype error = TypeError

text \<open>Truthiness, as \<open>!v\<close>, \<open>v || w\<close> and \<open>if (v)\<close> use it.\<close>

fun truthy :: "jsval \<Rightarrow> bool" where
  "truthy Undefined = False"
| "truthy Null = False"
| "truthy (Bool b) = b"
| "truthy (Num n) = (n \<noteq> 0)"
| "truthy NaN = False"
| "truthy (Str s) = (s \<noteq> [])"
| "truthy Obj = True"

fun string_of_nat :: "nat \<Rightarrow> string" where
  "string_of_nat n =
     (if n < 10 then [''0123456789'' ! n]
      else string_of_nat (n div 10) @ [''0123456789'' ! (n mod 10)])"

declare string_of_nat.simps [simp del]

definition string_of_int :: "int \<Rightarrow> string" where
  "string_of_int i = (if i < 0 then CHR ''-'' # string_of_nat (nat (- i)) else string_of_nat (nat i))"

text \<open>The string a template literal \<open>`${v}`\<close> puts in place of \<open>v\<close>.\<close>

fun toTemplate :: "jsval \<Rightarrow> string" where
  "toTemplate Undefined = ''undefined''"
| "toTemplate Null = ''null''"
| "toTemplate (Bool b) = (if b then ''true'' else ''false'')"
| "toTemplate (Num n) = string_of_int n"
| "toTemplate NaN = ''NaN''"
| "toTemplate (Str s) = s"
| "toTemplate Obj = ''[object Object]''"

text \<open>\<open>v + 1\<close>: numeric addition, or concatenation when \<open>v\<close> is a string or an object.\<close>

fun plus1 :: "jsval \<Rightarrow> jsval" where
  "plus1 Undefined = NaN"
| "plus1 Null = Num 1"
| "plus1 (Bool b) = Num (if b then 2 else 1)"
| "plus1 (Num n) = Num (n + 1)"
| "plus1 NaN = NaN"
| "plus1 (Str s) = Str (s @ ''1'')"
| "plus1 Obj = Str ''[object Object]1''"

abbreviation NL :: char where "NL \<equiv> CHR 0x0A"
abbreviation CR :: char where "CR \<equiv> CHR 0x0D"

text \<open>\<open>s.split('\n')\<close>: never empty; the empty string gives one empty line.\<close>

fun split_nl :: "string \<Rightarrow> string list" where
  "split_nl [] = [[]]"
| "split_nl (c # cs) =
     (if c = NL then [] # split_nl cs
      else (case split_nl cs of l # ls \<Rightarrow> (c # l) # ls | [] \<Rightarrow> [[c]]))"

text \<open>\<open>xs.join('\n')\<close>.\<close>

fun join_nl :: "string list \<Rightarrow> string" where
  "join_nl [] = []"
| "join_nl [l] = l"
| "join_nl (l # m # ls) = l @ NL # join_nl (m # ls)"

text \<open>\<open>s.indexOf(sub)\<close>, \<open>-1\<close> when \<open>sub\<close> does not occur; \<open>s.includes(sub)\<close>.\<close>

fun indexOf_from :: "nat \<Rightarrow> string \<Rightarrow> string \<Rightarrow> int" where
  "indexOf_from i [] sub = (if sub = [] then int i else - 1)"
| "indexOf_from i (c # cs) sub =
     (if prefix sub (c # cs) then int i else indexOf_from (Suc i) cs sub)"

definition indexOf :: "string \<Rightarrow> string \<Rightarrow> int" where
  "indexOf s sub = indexOf_from 0 s sub"

fun includesStr :: "string \<Rightarrow> string \<Rightarrow> bool" where
  "includesStr [] sub = (sub = [])"
| "includesStr (c # cs) sub = (prefix sub (c # cs) \<or> includesStr cs sub)"

text \<open>\<open>s.slice(0, e)\<close>: a negative end counts from the end of the string.\<close>

definition slice0 :: "string \<Rightarrow> int \<Rightarrow> string" where
  "slice0 s e = (if e < 0 then take (nat (int (length s) + e)) s else take (nat e) s)"

section \<open>Regular expressions\<close>

text \<open>
  The patterns of the file use literals, greedy repetition of one character class, options
  and sequencing, all anchored at both ends. \<open>rems r s\<close> lists what can remain of \<open>s\<close> after
  \<open>r\<close> has matched a prefix of it, in the order a backtracking matcher tries them.
\<close>

text \<open>
  The classes \<open>\s\<close>, \<open>\S\<close>, \<open>\d\<close> and \<open>.\<close> on code units below 256: white space is
  tab, line feed, vertical tab, form feed, carriage return, space and no-break space; the
  dot matches everything but the line terminators, here line feed and carriage return.
\<close>

datatype cclass = Space | NonSpace | Digit | Dot

definition isSpace :: "char \<Rightarrow> bool" where
  "isSpace c = (c \<in> set [CHR 0x09, CHR 0x0A, CHR 0x0B, CHR 0x0C, CHR 0x0D, CHR 0x20, CHR 0xA0])"

definition isDigit :: "char \<Rightarrow> bool" where
  "isDigit c = (c \<in> set ''0123456789'')"

fun inClass :: "cclass \<Rightarrow> char \<Rightarrow> bool" where
  "inClass Space c = isSpace c"
| "inClass NonSpace c = (\<not> isSpace c)"
| "inClass Digit c = isDigit c"
| "inClass Dot c = (c \<noteq> NL \<and> c \<noteq> CR)"

datatype rx = Lit string | Star cclass | Plus cclass | Opt rx | Seq rx rx

fun starRems :: "cclass \<Rightarrow> string \<Rightarrow> string list" where
  "starRems k [] = [[]]"
| "starRems k (c # cs) = (if inClass k c then starRems k cs else []) @ [c # cs]"

fun rems :: "rx \<Rightarrow> string \<Rightarrow> string list" where
  "rems (Lit l) s = (if prefix l s then [drop (length l) s] else [])"
| "rems (Star k) s = starRems k s"
| "rems (Plus k) s = (case s of [] \<Rightarrow> [] | c # cs \<Rightarrow> if inClass k c then starRems k cs else [])"
| "rems (Opt r) s = rems r s @ [s]"
| "rems (Seq r1 r2) s = remdups (concat (map (rems r2) (rems r1 s)))"

text \<open>\<open>/^r$/.test(s)\<close>\<close>

definition test :: "rx \<Rightarrow> string \<Rightarrow> bool" where
  "test r s = ([] \<in> set (rems r s))"

text \<open>\<open>/^\s*(at )?.*@?\(?.*\:\d+\:\d+\)?$/\<close>\<close>

definition stackLineRegex :: rx where
  "stackLineRegex =
     Seq (Star Space) (Seq (Opt (Lit ''at '')) (Seq (Star Dot) (Seq (Opt (Lit ''@''))
       (Seq (Opt (Lit ''('')) (Seq (Star Dot) (Seq (Lit '':'') (Seq (Plus Digit)
         (Seq (Lit '':'') (Seq (Plus Digit) (Opt (Lit '')'')))))))))))"

section \<open>Splitting a stack\<close>

record memo =
  messageEnded :: bool
  messageLines :: "string list"
  stackLines :: "string list"

definition splitStep :: "memo \<Rightarrow> string \<Rightarrow> memo" where
  "splitStep m l =
     (if messageEnded m \<or> test stackLineRegex l
      then m\<lparr>messageEnded := True, stackLines := stackLines m @ [l]\<rparr>
      else m\<lparr>messageLines := messageLines m @ [l]\<rparr>)"

definition splitStack :: "string \<Rightarrow> string list \<times> string list" where
  "splitStack stack =
     (let m = foldl splitStep \<lparr>messageEnded = False, messageLines = [], stackLines = []\<rparr>
                (split_nl stack)
      in (messageLines m, stackLines m))"

section \<open>Parsing one line\<close>

text \<open>
  \<open>getWhitespace\<close>: \<open>/^(\s*)\S*/\<close> matches every string, and its greedy group is the longest
  prefix of white space; the empty line is answered before the match.
\<close>

definition getWhitespace :: "string \<Rightarrow> string" where
  "getWhitespace l = (if l = [] then [] else takeWhile isSpace l)"

text \<open>A frame as the package error-stack-parser returns it; a field can be undefined.\<close>

record stack_frame =
  functionName :: "string option"
  fileName :: jsval
  lineNumber :: jsval
  columnNumber :: jsval

text \<open>The object \<open>{line, column, file, function}\<close> of \<open>parseLine\<close> and \<open>getSourceDetails\<close>.\<close>

record details =
  d_line :: jsval
  d_column :: jsval
  d_file :: jsval
  d_function :: string

text \<open>The position \<open>{file, line, column}\<close> the source-map resolver answers with.\<close>

record source_position =
  srcFile :: string
  srcLine :: int
  srcColumn :: int

record code_frame =
  cfLine :: jsval
  cfColumn :: jsval
  cfRelativeFile :: jsval
  cfAbsoluteFile :: jsval
  frame :: string
  language :: "string option"

text \<open>
  The collaborators the file calls and does not define: \<open>errorStackParser.parse({stack: l})[0]\<close>,
  the two functions of \<open>source_map_utils\<close>, \<open>codeFrameColumns\<close>, and \<open>path.join\<close> and
  \<open>path.extname\<close> on strings (on any other argument both raise a TypeError, which the
  callers below write out).
\<close>

record env =
  parseFrame :: "string \<Rightarrow> stack_frame option"
  getSourcePosition :: "jsval \<Rightarrow> details \<Rightarrow> source_position option"
  getSourceContents :: "jsval \<Rightarrow> jsval \<Rightarrow> string option"
  codeFrameColumns :: "string \<Rightarrow> jsval \<Rightarrow> jsval \<Rightarrow> string"
  pathJoin :: "string \<Rightarrow> string \<Rightarrow> string"
  pathExtname :: "string \<Rightarrow> string"

text \<open>\<open>/(\/<|<\/<)$/\<close> removed once: the leftmost match is the longer suffix when both end the name.\<close>

definition cleanFunctionName :: "string option \<Rightarrow> string" where
  "cleanFunctionName fnName =
     (case fnName of
        None \<Rightarrow> ''<unknown>''
      | Some f \<Rightarrow>
          if suffix ''</<'' f then take (length f - 3) f
          else if suffix ''/<'' f then take (length f - 2) f
          else f)"

definition parseLine :: "env \<Rightarrow> string \<Rightarrow> details option" where
  "parseLine E l =
     (if \<not> test stackLineRegex l then None
      else case parseFrame E l of
        None \<Rightarrow> None
      | Some parsed \<Rightarrow>
          Some \<lparr>d_line = lineNumber parsed, d_column = columnNumber parsed,
                d_file = fileName parsed, d_function = cleanFunctionName (functionName parsed)\<rparr>)"

definition getSourceDetails :: "env \<Rightarrow> details \<Rightarrow> details" where
  "getSourceDetails E generatedDetails =
     (case getSourcePosition E (d_file generatedDetails) generatedDetails of
        None \<Rightarrow> generatedDetails
      | Some sourceDetails \<Rightarrow>
          \<lparr>d_line = Num (srcLine sourceDetails), d_column = Num (srcColumn sourceDetails),
           d_file = Str (srcFile sourceDetails),
           d_function = (if d_function generatedDetails = ''Context.eval'' then ''Test.run''
                         else d_function generatedDetails)\<rparr>)"

text \<open>
  A parsed line is \<open>{message, whitespace}\<close> or
  \<open>{function, fileUrl, relativeFile, absoluteFile, line, column, whitespace}\<close>.
\<close>

datatype parsedLine =
  MessageLine string string
| FrameLine string jsval jsval string jsval jsval string

text \<open>Reading a field of a parsed line; a field the object does not have is undefined.\<close>

fun fileUrl :: "parsedLine \<Rightarrow> jsval" where
  "fileUrl (MessageLine m w) = Undefined"
| "fileUrl (FrameLine f u r a l c w) = u"

fun relativeFile :: "parsedLine \<Rightarrow> jsval" where
  "relativeFile (MessageLine m w) = Undefined"
| "relativeFile (FrameLine f u r a l c w) = r"

fun absoluteFile :: "parsedLine \<Rightarrow> jsval" where
  "absoluteFile (MessageLine m w) = Undefined"
| "absoluteFile (FrameLine f u r a l c w) = Str a"

fun lineOf :: "parsedLine \<Rightarrow> jsval" where
  "lineOf (MessageLine m w) = Undefined"
| "lineOf (FrameLine f u r a l c w) = l"

fun columnOf :: "parsedLine \<Rightarrow> jsval" where
  "columnOf (MessageLine m w) = Undefined"
| "columnOf (FrameLine f u r a l c w) = c"

definition getSourceDetailsForLine :: "env \<Rightarrow> string \<Rightarrow> string \<Rightarrow> error + parsedLine" where
  "getSourceDetailsForLine E projectRoot l =
     (let whitespace = getWhitespace l in
      case parseLine E l of
        None \<Rightarrow> Inr (MessageLine l whitespace)
      | Some generatedDetails \<Rightarrow>
          (let sourceDetails = getSourceDetails E generatedDetails in
           case d_file sourceDetails of
             Str f \<Rightarrow>
               Inr (FrameLine (d_function sourceDetails) (d_file generatedDetails)
                      (d_file sourceDetails) (pathJoin E projectRoot f) (d_line sourceDetails)
                      (plus1 (d_column sourceDetails)) whitespace)
           | _ \<Rightarrow> Inl TypeError))"

section \<open>Reconstructing a stack\<close>

fun reconstructLine :: "parsedLine \<Rightarrow> string" where
  "reconstructLine (MessageLine message whitespace) = whitespace @ message"
| "reconstructLine (FrameLine fn url relFile absFile ln col whitespace) =
     whitespace @ ''at '' @ fn @ '' (''
       @ (if truthy relFile then toTemplate relFile else ''<unknown>'')
       @ '':'' @ toTemplate ln @ '':'' @ toTemplate col @ '')''"

definition reconstructStack :: "parsedLine list \<Rightarrow> string" where
  "reconstructStack parsedStack = join_nl (map reconstructLine parsedStack)"

text \<open>\<open>_.map\<close> with a function that can raise: the first exception ends the traversal.\<close>

fun mapE :: "('a \<Rightarrow> error + 'b) \<Rightarrow> 'a list \<Rightarrow> error + 'b list" where
  "mapE f [] = Inr []"
| "mapE f (x # xs) =
     (case f x of
        Inl e \<Rightarrow> Inl e
      | Inr y \<Rightarrow> (case mapE f xs of Inl e \<Rightarrow> Inl e | Inr ys \<Rightarrow> Inr (y # ys)))"

datatype sourceStack = EmptyObject | SourceStack "parsedLine list" string

definition getSourceStack :: "env \<Rightarrow> jsval \<Rightarrow> string \<Rightarrow> error + sourceStack" where
  "getSourceStack E stack projectRoot =
     (case stack of
        Str s \<Rightarrow>
          (case mapE (getSourceDetailsForLine E projectRoot) (split_nl s) of
             Inl e \<Rightarrow> Inl e
           | Inr parsed \<Rightarrow> Inr (SourceStack parsed (reconstructStack parsed)))
      | _ \<Rightarrow> Inr EmptyObject)"

section \<open>Error objects\<close>

text \<open>
  An error object: its name and message (strings, as \<open>Error.prototype.toString\<close> reads them),
  its stack, which can hold any value or be missing, and the two fields \<open>getCodeFrame\<close> reads.
  The functions that assign to \<open>err.stack\<close> return the updated object.
\<close>

record err =
  name :: string
  message :: string
  stack :: jsval
  codeFrame :: "code_frame option"
  parsedStack :: "parsedLine list option"

text \<open>\<open>err.toString()\<close>\<close>

definition errToString :: "err \<Rightarrow> string" where
  "errToString e =
     (if name e = [] then message e
      else if message e = [] then name e
      else name e @ '': '' @ message e)"

definition normalizeStack :: "err \<Rightarrow> error + err" where
  "normalizeStack e =
     (let errString = errToString e;
          errStack = (if truthy (stack e) then stack e else Str [])
      in case errStack of
           Str st \<Rightarrow>
             (let firstErrLine = slice0 errString (indexOf errString [NL]);
                  firstStackLine = slice0 st (indexOf st [NL]);
                  stackIncludesMsg = includesStr firstStackLine firstErrLine
              in Inr (if \<not> stackIncludesMsg then e\<lparr>stack := Str (errString @ NL # st)\<rparr> else e))
         | _ \<Rightarrow> Inl TypeError)"

definition replaceStack :: "err \<Rightarrow> jsval \<Rightarrow> error + err" where
  "replaceStack e newStack =
     (if \<not> truthy (stack e) then Inr e
      else
        (let errString = errToString e in
         case newStack of
           Str ns \<Rightarrow>
             (let relevantStackLines =
                    filter (\<lambda>l. \<not> indexOf l ''__getSpecFrameStack'' > - 1) (snd (splitStack ns))
              in Inr (e\<lparr>stack := Str (join_nl (errString # relevantStackLines))\<rparr>))
         | _ \<Rightarrow> Inl TypeError))"

definition hasStack :: "err \<Rightarrow> error + bool" where
  "hasStack e =
     (if \<not> truthy (stack e) then Inr False
      else case stack e of
             Str s \<Rightarrow> Inr (length (snd (splitStack s)) \<noteq> 0)
           | _ \<Rightarrow> Inl TypeError)"

text \<open>The result is \<open>firstStackLine && ...\<close>: undefined or the empty string when the line is.\<close>

definition isFromCypress :: "err \<Rightarrow> error + jsval" where
  "isFromCypress e =
     (case stack e of
        Str s \<Rightarrow>
          (case snd (splitStack s) of
             [] \<Rightarrow> Inr Undefined
           | firstStackLine # _ \<Rightarrow>
               Inr (if firstStackLine = [] then Str []
                    else Bool (indexOf firstStackLine ''cypress://'' > - 1)))
      | _ \<Rightarrow> Inl TypeError)"

section \<open>Code frames\<close>

definition toLowerCase :: "string \<Rightarrow> string" where
  "toLowerCase s =
     map (\<lambda>c. let n = (of_char c :: nat)
              in if (65 \<le> n \<and> n \<le> 90) \<or> (192 \<le> n \<and> n \<le> 222 \<and> n \<noteq> 215)
                 then char_of (n + 32) else c) s"

definition getLanguageFromExtension :: "env \<Rightarrow> jsval \<Rightarrow> error + string option" where
  "getLanguageFromExtension E filePath =
     (case filePath of
        Str p \<Rightarrow>
          (let l = remove1 (CHR ''.'') (toLowerCase (pathExtname E p))
           in Inr (if l = [] then None else Some l))
      | _ \<Rightarrow> Inl TypeError)"

definition getCodeFrameFromSource ::
  "env \<Rightarrow> string option \<Rightarrow> parsedLine \<Rightarrow> error + code_frame option" where
  "getCodeFrameFromSource E sourceCode l =
     (case sourceCode of
        None \<Rightarrow> Inr None
      | Some src \<Rightarrow>
          if src = [] then Inr None
          else
            (let fr = codeFrameColumns E src (lineOf l) (columnOf l) in
             if fr = [] then Inr None
             else case getLanguageFromExtension E (relativeFile l) of
                    Inl x \<Rightarrow> Inl x
                  | Inr lang \<Rightarrow>
                      Inr (Some \<lparr>cfLine = lineOf l, cfColumn = columnOf l,
                                 cfRelativeFile = relativeFile l, cfAbsoluteFile = absoluteFile l,
                                 frame = fr, language = lang\<rparr>)))"

definition getCodeFrame :: "env \<Rightarrow> err \<Rightarrow> error + code_frame option" where
  "getCodeFrame E e =
     (case codeFrame e of
        Some cf \<Rightarrow> Inr (Some cf)
      | None \<Rightarrow>
          (case parsedStack e of
             None \<Rightarrow> Inr None
           | Some ps \<Rightarrow>
               (case find (\<lambda>l. truthy (fileUrl l)) ps of
                  None \<Rightarrow> Inr None
                | Some firstStackLine \<Rightarrow>
                    getCodeFrameFromSource E
                      (getSourceContents E (fileUrl firstStackLine) (relativeFile firstStackLine))
                      firstStackLine)))"

section \<open>Concrete inputs\<close>

text \<open>
  An environment for the examples. Its frame parser knows two lines in the format of
  Chromium and answers with the fields error-stack-parser reads off them; its resolver maps
  position 10:3 of \<open>bundle.js\<close> to position 5:1 of \<open>spec.js\<close> and knows nothing else.
\<close>

definition exampleEnv :: env where
  "exampleEnv =
     \<lparr>parseFrame = (\<lambda>l.
        if l = ''  at foo (file.js:1:2)''
        then Some \<lparr>functionName = Some ''foo'', fileName = Str ''file.js'',
                    lineNumber = Num 1, columnNumber = Num 2\<rparr>
        else if l = ''    at Context.eval (bundle.js:10:3)''
        then Some \<lparr>functionName = Some ''Context.eval'', fileName = Str ''bundle.js'',
                    lineNumber = Num 10, columnNumber = Num 3\<rparr>
        else None),
      getSourcePosition = (\<lambda>f g.
        if f = Str ''bundle.js'' \<and> d_line g = Num 10 \<and> d_column g = Num 3
        then Some \<lparr>srcFile = ''spec.js'', srcLine = 5, srcColumn = 1\<rparr>
        else None),
      getSourceContents = (\<lambda>u r. None),
      codeFrameColumns = (\<lambda>src l c. []),
      pathJoin = (\<lambda>a b. a @ ''/'' @ b),
      pathExtname = (\<lambda>p. [])\<rparr>"

definition exampleErr :: err where
  "exampleErr = \<lparr>name = ''Error'', message = ''x'', stack = Undefined,
                  codeFrame = None, parsedStack = None\<rparr>"

section \<open>The splitter\<close>

lemma foldl_splitStep_ended:
  "messageEnded m \<Longrightarrow> foldl splitStep m ls = m\<lparr>stackLines := stackLines m @ ls\<rparr>"
  by (induction ls arbitrary: m) (simp_all add: splitStep_def)

lemma foldl_splitStep_open:
  "\<not> messageEnded m \<Longrightarrow>
     messageLines (foldl splitStep m ls)
       = messageLines m @ takeWhile (\<lambda>l. \<not> test stackLineRegex l) ls \<and>
     stackLines (foldl splitStep m ls)
       = stackLines m @ dropWhile (\<lambda>l. \<not> test stackLineRegex l) ls"
proof (induction ls arbitrary: m)
  case Nil
  then show ?case by simp
next
  case (Cons l ls)
  show ?case
  proof (cases "test stackLineRegex l")
    case True
    then have ended: "messageEnded (splitStep m l)"
      and lines: "messageLines (splitStep m l) = messageLines m"
                 "stackLines (splitStep m l) = stackLines m @ [l]"
      by (simp_all add: splitStep_def)
    have "foldl splitStep m (l # ls)
            = (splitStep m l)\<lparr>stackLines := stackLines (splitStep m l) @ ls\<rparr>"
      using foldl_splitStep_ended [OF ended] by simp
    with True lines show ?thesis by simp
  next
    case False
    with Cons.prems have opn: "\<not> messageEnded (splitStep m l)"
      and lines: "messageLines (splitStep m l) = messageLines m @ [l]"
                 "stackLines (splitStep m l) = stackLines m"
      by (simp_all add: splitStep_def)
    from Cons.IH [OF opn] False lines show ?thesis by simp
  qed
qed

lemma splitStack_takeWhile_dropWhile:
  "splitStack s =
     (takeWhile (\<lambda>l. \<not> test stackLineRegex l) (split_nl s),
      dropWhile (\<lambda>l. \<not> test stackLineRegex l) (split_nl s))"
  using foldl_splitStep_open
          [of "\<lparr>messageEnded = False, messageLines = [], stackLines = []\<rparr>" "split_nl s"]
  by (simp add: splitStack_def Let_def)

text \<open>
  C4. \<open>splitStack\<close> reads the lines from the top with a one-way transition: the message
  lines are exactly the lines before the first line that matches the frame pattern (none of
  them matches), and the frame lines are that first matching line and every line after it,
  whether it matches or not.
\<close>

theorem splitStack_sticky:
  "fst (splitStack s) = takeWhile (\<lambda>l. \<not> test stackLineRegex l) (split_nl s) \<and>
   snd (splitStack s) = dropWhile (\<lambda>l. \<not> test stackLineRegex l) (split_nl s)"
  by (simp add: splitStack_takeWhile_dropWhile)

text \<open>
  C5. The message lines and the frame lines of \<open>splitStack s\<close> together are as many as the
  lines of \<open>s\<close>, and the message lines followed by the frame lines are the lines of \<open>s\<close> in
  their order.
\<close>

theorem splitStack_length_order:
  "length (fst (splitStack s)) + length (snd (splitStack s)) = length (split_nl s) \<and>
   fst (splitStack s) @ snd (splitStack s) = split_nl s"
proof -
  have eq: "fst (splitStack s) @ snd (splitStack s) = split_nl s"
    by (simp add: splitStack_takeWhile_dropWhile)
  have "length (fst (splitStack s)) + length (snd (splitStack s))
          = length (fst (splitStack s) @ snd (splitStack s))"
    by simp
  also have "\<dots> = length (split_nl s)"
    by (simp only: eq)
  finally show ?thesis using eq by blast
qed

section \<open>The frame pattern\<close>

lemma starRems_self: "s \<in> set (starRems k s)"
  by (cases s) simp_all

lemma starRems_run:
  "\<forall>c \<in> set u. inClass k c \<Longrightarrow> v \<in> set (starRems k (u @ v))"
  by (induction u) (simp_all add: starRems_self)

lemma rems_Lit: "v \<in> set (rems (Lit l) (l @ v))"
  by simp

lemma rems_Star: "\<forall>c \<in> set u. inClass k c \<Longrightarrow> v \<in> set (rems (Star k) (u @ v))"
  by (simp add: starRems_run)

lemma rems_Star_skip: "s \<in> set (rems (Star k) s)"
  by (simp add: starRems_self)

lemma rems_Plus:
  "u \<noteq> [] \<Longrightarrow> \<forall>c \<in> set u. inClass k c \<Longrightarrow> v \<in> set (rems (Plus k) (u @ v))"
  by (cases u) (simp_all add: starRems_run)

lemma rems_Opt_skip: "s \<in> set (rems (Opt r) s)"
  by simp

lemma rems_Opt_take: "v \<in> set (rems r s) \<Longrightarrow> v \<in> set (rems (Opt r) s)"
  by simp

lemma rems_Seq:
  "t \<in> set (rems r1 s) \<Longrightarrow> v \<in> set (rems r2 t) \<Longrightarrow> v \<in> set (rems (Seq r1 r2) s)"
  by auto

text \<open>
  A match of the pattern that uses neither \<open>at\<close>, \<open>@\<close> nor \<open>(\<close>: white space, any text
  without a line terminator, and the two numbers.
\<close>

lemma stackLineRegex_accepts:
  assumes ws: "\<forall>c \<in> set ws. inClass Space c"
    and body: "\<forall>c \<in> set body. inClass Dot c"
    and d1: "d1 \<noteq> []" "\<forall>c \<in> set d1. inClass Digit c"
    and d2: "d2 \<noteq> []" "\<forall>c \<in> set d2. inClass Digit c"
    and cl: "cl = [] \<or> cl = '')''"
  shows "test stackLineRegex (ws @ body @ '':'' @ d1 @ '':'' @ d2 @ cl)"
proof -
  let ?r10 = "Opt (Lit '')'')"
  let ?r9 = "Seq (Plus Digit) ?r10"
  let ?r8 = "Seq (Lit '':'') ?r9"
  let ?r7 = "Seq (Plus Digit) ?r8"
  let ?r6 = "Seq (Lit '':'') ?r7"
  let ?r5 = "Seq (Star Dot) ?r6"
  let ?r4 = "Seq (Opt (Lit ''('')) ?r5"
  let ?r3 = "Seq (Opt (Lit ''@'')) ?r4"
  let ?r2 = "Seq (Star Dot) ?r3"
  let ?r1 = "Seq (Opt (Lit ''at '')) ?r2"
  have "[] \<in> set (rems ?r10 cl)"
  proof (cases "cl = []")
    case True
    then show ?thesis by (simp only: rems_Opt_skip)
  next
    case False
    with cl have "cl = '')'' @ []" by simp
    then show ?thesis
      using rems_Opt_take [OF rems_Lit [of "[]" "'')''"]] by (simp only:)
  qed
  then have "[] \<in> set (rems ?r9 (d2 @ cl))"
    by (rule rems_Seq [OF rems_Plus [OF d2]])
  then have "[] \<in> set (rems ?r8 ('':'' @ d2 @ cl))"
    by (rule rems_Seq [OF rems_Lit])
  then have "[] \<in> set (rems ?r7 (d1 @ '':'' @ d2 @ cl))"
    by (rule rems_Seq [OF rems_Plus [OF d1]])
  then have "[] \<in> set (rems ?r6 ('':'' @ d1 @ '':'' @ d2 @ cl))"
    by (rule rems_Seq [OF rems_Lit])
  then have "[] \<in> set (rems ?r5 (body @ '':'' @ d1 @ '':'' @ d2 @ cl))"
    by (rule rems_Seq [OF rems_Star [OF body]])
  then have "[] \<in> set (rems ?r4 (body @ '':'' @ d1 @ '':'' @ d2 @ cl))"
    by (rule rems_Seq [OF rems_Opt_skip])
  then have "[] \<in> set (rems ?r3 (body @ '':'' @ d1 @ '':'' @ d2 @ cl))"
    by (rule rems_Seq [OF rems_Opt_skip])
  then have "[] \<in> set (rems ?r2 (body @ '':'' @ d1 @ '':'' @ d2 @ cl))"
    by (rule rems_Seq [OF rems_Star_skip])
  then have "[] \<in> set (rems ?r1 (body @ '':'' @ d1 @ '':'' @ d2 @ cl))"
    by (rule rems_Seq [OF rems_Opt_skip])
  then have "[] \<in> set (rems (Seq (Star Space) ?r1) (ws @ body @ '':'' @ d1 @ '':'' @ d2 @ cl))"
    by (rule rems_Seq [OF rems_Star [OF ws]])
  then show ?thesis
    by (simp only: test_def stackLineRegex_def)
qed

lemma matching_line_is_frame:
  assumes "test stackLineRegex l" and "l \<in> set (split_nl s)"
  shows "l \<in> set (snd (splitStack s)) \<and> l \<notin> set (fst (splitStack s))"
proof -
  let ?P = "\<lambda>l. \<not> test stackLineRegex l"
  have "l \<notin> set (takeWhile ?P (split_nl s))"
    using assms(1) by (auto dest: set_takeWhileD)
  moreover have "set (split_nl s)
                   = set (takeWhile ?P (split_nl s)) \<union> set (dropWhile ?P (split_nl s))"
    by (metis set_append takeWhile_dropWhile_id)
  ultimately show ?thesis using assms(2)
    by (simp add: splitStack_takeWhile_dropWhile)
qed

text \<open>
  C9, as amended. The pattern needs neither \<open>@\<close> nor \<open>(\<close>: a line that is white space, then
  any text without a carriage return or line feed, then \<open>:digits:digits\<close> and possibly a
  closing parenthesis matches the pattern, and in every stack that has this line
  \<open>splitStack\<close> puts it among the frame lines and not among the message lines.
\<close>

theorem stackLineRegex_optional_markers:
  assumes "\<forall>c \<in> set ws. isSpace c"
    and "\<forall>c \<in> set body. c \<noteq> NL \<and> c \<noteq> CR"
    and "d1 \<noteq> []" and "\<forall>c \<in> set d1. isDigit c"
    and "d2 \<noteq> []" and "\<forall>c \<in> set d2. isDigit c"
    and "cl = [] \<or> cl = '')''"
    and "l = ws @ body @ '':'' @ d1 @ '':'' @ d2 @ cl"
  shows "test stackLineRegex l \<and>
         (l \<in> set (split_nl s) \<longrightarrow>
            l \<in> set (snd (splitStack s)) \<and> l \<notin> set (fst (splitStack s)))"
proof -
  have "test stackLineRegex l"
    unfolding assms(8)
    by (rule stackLineRegex_accepts) (use assms in simp_all)
  then show ?thesis
    using matching_line_is_frame by blast
qed

theorem stackLineRegex_optional_markers_witness:
  "test stackLineRegex ''failed :1:2'' \<and>
   ''failed :1:2'' \<in> set (snd (splitStack ''failed :1:2'')) \<and>
   ''failed :1:2'' \<notin> set (fst (splitStack ''failed :1:2''))"
  using stackLineRegex_optional_markers
          [of "[]" "''failed ''" "''1''" "''2''" "[]" "''failed :1:2''" "''failed :1:2''"]
  by (simp add: isDigit_def)

text \<open>
  The dot of the pattern matches no carriage return, so a line that holds one after its
  leading white space is a message line even though it ends with \<open>:1:2\<close>.
\<close>

theorem stackLineRegex_carriage_return_counterexample:
  "\<not> test stackLineRegex (''a'' @ [CR] @ ''b'' @ '':1:2'') \<and>
   splitStack (''a'' @ [CR] @ ''b'' @ '':1:2'') = ([''a'' @ [CR] @ ''b'' @ '':1:2''], [])"
proof -
  have no: "\<not> test stackLineRegex (''a'' @ [CR] @ ''b'' @ '':1:2'')"
    by (simp add: test_def stackLineRegex_def isSpace_def isDigit_def)
  have "split_nl (''a'' @ [CR] @ ''b'' @ '':1:2'') = [''a'' @ [CR] @ ''b'' @ '':1:2'']"
    by simp
  with no show ?thesis
    by (simp only: splitStack_takeWhile_dropWhile takeWhile.simps dropWhile.simps simp_thms if_True)
qed

section \<open>Mapping a frame to its source\<close>

text \<open>
  C7. When the resolver answers for a frame, the mapped frame is called \<open>Test.run\<close> if the
  frame's function name is exactly \<open>Context.eval\<close>, and keeps the frame's function name
  otherwise.
\<close>

theorem getSourceDetails_function:
  "getSourcePosition E (d_file g) g = Some sp \<Longrightarrow>
     d_function (getSourceDetails E g)
       = (if d_function g = ''Context.eval'' then ''Test.run'' else d_function g)"
  by (simp add: getSourceDetails_def)

theorem getSourceDetails_function_witness:
  "getSourcePosition exampleEnv (Str ''bundle.js'')
       \<lparr>d_line = Num 10, d_column = Num 3, d_file = Str ''bundle.js'',
        d_function = ''Context.eval''\<rparr>
     = Some \<lparr>srcFile = ''spec.js'', srcLine = 5, srcColumn = 1\<rparr> \<and>
   d_function (getSourceDetails exampleEnv
       \<lparr>d_line = Num 10, d_column = Num 3, d_file = Str ''bundle.js'',
        d_function = ''Context.eval''\<rparr>) = ''Test.run''"
  using getSourceDetails_function
          [of exampleEnv "\<lparr>d_line = Num 10, d_column = Num 3, d_file = Str ''bundle.js'',
                           d_function = ''Context.eval''\<rparr>"
              "\<lparr>srcFile = ''spec.js'', srcLine = 5, srcColumn = 1\<rparr>"]
  by (simp add: exampleEnv_def)

text \<open>
  C3. When a line parses to a generated frame and the resolver answers for it, the parsed
  line keeps the generated file as \<open>fileUrl\<close>, takes its file and line from the resolver's
  answer and its column from the resolver's column plus 1, and the reconstructed line reads
  \<open>at fn (file:line:column+1)\<close> with the resolver's values. For the frame
  \<open>bundle.js:10:3\<close> resolved to \<open>spec.js:5:1\<close> the line ends in \<open>(spec.js:5:2)\<close>.
\<close>

theorem mapped_frame_from_resolver:
  assumes "parseLine E l = Some g" and "getSourcePosition E (d_file g) g = Some sp"
  shows "\<exists>p. getSourceDetailsForLine E projectRoot l = Inr p \<and>
           fileUrl p = d_file g \<and>
           relativeFile p = Str (srcFile sp) \<and>
           lineOf p = Num (srcLine sp) \<and>
           columnOf p = Num (srcColumn sp + 1) \<and>
           reconstructStack [p] =
             getWhitespace l @ ''at ''
               @ (if d_function g = ''Context.eval'' then ''Test.run'' else d_function g)
               @ '' ('' @ (if srcFile sp = [] then ''<unknown>'' else srcFile sp)
               @ '':'' @ string_of_int (srcLine sp)
               @ '':'' @ string_of_int (srcColumn sp + 1) @ '')''"
  using assms
  by (simp add: getSourceDetailsForLine_def getSourceDetails_def reconstructStack_def Let_def)

lemma exampleEnv_parses_bundle_line:
  "parseLine exampleEnv ''    at Context.eval (bundle.js:10:3)''
     = Some \<lparr>d_line = Num 10, d_column = Num 3, d_file = Str ''bundle.js'',
             d_function = ''Context.eval''\<rparr>"
proof -
  have "test stackLineRegex
          ([] @ ''    at Context.eval (bundle.js'' @ '':'' @ ''10'' @ '':'' @ ''3'' @ '')'')"
    by (rule stackLineRegex_accepts) (simp_all add: isDigit_def)
  then show ?thesis
    by (simp add: parseLine_def exampleEnv_def cleanFunctionName_def suffix_def)
qed

theorem mapped_frame_from_resolver_witness:
  "\<exists>p. getSourceDetailsForLine exampleEnv ''/root'' ''    at Context.eval (bundle.js:10:3)''
           = Inr p \<and>
        relativeFile p = Str ''spec.js'' \<and> lineOf p = Num 5 \<and> columnOf p = Num 2 \<and>
        reconstructStack [p] = ''    at Test.run (spec.js:5:2)''"
proof -
  have sp: "getSourcePosition exampleEnv (Str ''bundle.js'')
              \<lparr>d_line = Num 10, d_column = Num 3, d_file = Str ''bundle.js'',
               d_function = ''Context.eval''\<rparr>
            = Some \<lparr>srcFile = ''spec.js'', srcLine = 5, srcColumn = 1\<rparr>"
    by (simp add: exampleEnv_def)
  have n5: "string_of_int 5 = ''5''" and n2: "string_of_int 2 = ''2''"
    by (simp_all add: string_of_int_def string_of_nat.simps)
  have "\<exists>p. getSourceDetailsForLine exampleEnv ''/root''
                ''    at Context.eval (bundle.js:10:3)'' = Inr p \<and>
            fileUrl p = Str ''bundle.js'' \<and>
            relativeFile p = Str ''spec.js'' \<and> lineOf p = Num 5 \<and> columnOf p = Num 2 \<and>
            reconstructStack [p] = ''    at Test.run (spec.js:5:2)''"
    using mapped_frame_from_resolver
            [of exampleEnv "''    at Context.eval (bundle.js:10:3)''"
                "\<lparr>d_line = Num 10, d_column = Num 3, d_file = Str ''bundle.js'',
                  d_function = ''Context.eval''\<rparr>"
                "\<lparr>srcFile = ''spec.js'', srcLine = 5, srcColumn = 1\<rparr>" "''/root''"]
          exampleEnv_parses_bundle_line sp n5 n2
    by (simp add: getWhitespace_def isSpace_def)
  then show ?thesis by blast
qed

section \<open>Reconstructing an unmapped stack\<close>

lemma split_nl_nonempty: "split_nl s \<noteq> []"
  by (induction s) (auto split: list.splits)

lemma join_nl_split_nl: "join_nl (split_nl s) = s"
proof (induction s)
  case Nil
  show ?case by simp
next
  case (Cons c cs)
  obtain l ls where sp: "split_nl cs = l # ls"
    using split_nl_nonempty [of cs] by (cases "split_nl cs") auto
  show ?case
  proof (cases "c = NL")
    case True
    with sp Cons.IH show ?thesis by simp
  next
    case False
    have "join_nl ((c # l) # ls) = c # join_nl (l # ls)"
      by (cases ls) simp_all
    with False sp Cons.IH show ?thesis by simp
  qed
qed

lemma mapE_total:
  "\<forall>x \<in> set xs. f x = Inr (g x) \<Longrightarrow> mapE f xs = Inr (map g xs)"
  by (induction xs) simp_all

lemma parseLine_resolver_update:
  "parseLine (E\<lparr>getSourcePosition := r\<rparr>) l = parseLine E l"
  by (simp add: parseLine_def)

lemma getSourceDetailsForLine_unmapped:
  "getSourceDetailsForLine (E\<lparr>getSourcePosition := (\<lambda>u g. None)\<rparr>) projectRoot l =
     (case parseLine E l of
        None \<Rightarrow> Inr (MessageLine l (getWhitespace l))
      | Some g \<Rightarrow>
          (case d_file g of
             Str f \<Rightarrow> Inr (FrameLine (d_function g) (Str f) (Str f) (pathJoin E projectRoot f)
                            (d_line g) (plus1 (d_column g)) (getWhitespace l))
           | _ \<Rightarrow> Inl TypeError))"
  by (simp add: getSourceDetailsForLine_def getSourceDetails_def parseLine_resolver_update Let_def
           split: option.splits jsval.splits)

lemma exampleEnv_parses_file_line:
  "parseLine exampleEnv ''  at foo (file.js:1:2)''
     = Some \<lparr>d_line = Num 1, d_column = Num 2, d_file = Str ''file.js'', d_function = ''foo''\<rparr>"
proof -
  have "test stackLineRegex ([] @ ''  at foo (file.js'' @ '':'' @ ''1'' @ '':'' @ ''2'' @ '')'')"
    by (rule stackLineRegex_accepts) (simp_all add: isDigit_def)
  then show ?thesis
    by (simp add: parseLine_def exampleEnv_def cleanFunctionName_def suffix_def)
qed

lemma exampleEnv_parses_no_message:
  "parseLine exampleEnv ''Error: x'' = None"
  "parseLine exampleEnv ''  caused by y'' = None"
  by (simp_all add: parseLine_def exampleEnv_def)

text \<open>
  C1, as amended. Let the resolver answer nothing, let no message line of the stack begin
  with white space, and let every frame the parser reads have a string as its file name.
  Then \<open>getSourceStack\<close> raises nothing, and the reconstructed stack has the lines of the
  input in their order: each message line as it is, and each frame line rewritten from its
  parsed fields as its leading white space and \<open>at fn (file:line:column+1)\<close>, with
  \<open><unknown>\<close> for an empty file name and the column one more than the parsed one. So a
  stack of message lines only is reconstructed exactly.
\<close>

theorem getSourceStack_unmapped:
  assumes msg: "\<forall>l \<in> set (split_nl s). parseLine E l = None \<longrightarrow> getWhitespace l = []"
    and frm: "\<forall>l \<in> set (split_nl s). \<forall>g. parseLine E l = Some g \<longrightarrow> (\<exists>f. d_file g = Str f)"
  shows "\<exists>parsed.
           getSourceStack (E\<lparr>getSourcePosition := (\<lambda>u g. None)\<rparr>) (Str s) projectRoot
             = Inr (SourceStack parsed (reconstructStack parsed)) \<and>
           reconstructStack parsed =
             join_nl (map (\<lambda>l. case parseLine E l of
                                  None \<Rightarrow> l
                                | Some g \<Rightarrow>
                                    getWhitespace l @ ''at '' @ d_function g @ '' (''
                                      @ (if truthy (d_file g) then toTemplate (d_file g)
                                         else ''<unknown>'')
                                      @ '':'' @ toTemplate (d_line g)
                                      @ '':'' @ toTemplate (plus1 (d_column g)) @ '')'')
                          (split_nl s)) \<and>
           ((\<forall>l \<in> set (split_nl s). parseLine E l = None) \<longrightarrow> reconstructStack parsed = s)"
proof -
  let ?E = "E\<lparr>getSourcePosition := (\<lambda>u g. None)\<rparr>"
  let ?pl = "\<lambda>l. case parseLine E l of
                    None \<Rightarrow> MessageLine l (getWhitespace l)
                  | Some g \<Rightarrow> FrameLine (d_function g) (d_file g) (d_file g)
                               (pathJoin E projectRoot (toTemplate (d_file g)))
                               (d_line g) (plus1 (d_column g)) (getWhitespace l)"
  let ?render = "\<lambda>l. case parseLine E l of
                    None \<Rightarrow> l
                  | Some g \<Rightarrow>
                      getWhitespace l @ ''at '' @ d_function g @ '' (''
                        @ (if truthy (d_file g) then toTemplate (d_file g) else ''<unknown>'')
                        @ '':'' @ toTemplate (d_line g)
                        @ '':'' @ toTemplate (plus1 (d_column g)) @ '')''"
  have each: "\<forall>l \<in> set (split_nl s). getSourceDetailsForLine ?E projectRoot l = Inr (?pl l)"
  proof
    fix l assume l: "l \<in> set (split_nl s)"
    show "getSourceDetailsForLine ?E projectRoot l = Inr (?pl l)"
    proof (cases "parseLine E l")
      case None
      then show ?thesis by (simp add: getSourceDetailsForLine_unmapped)
    next
      case (Some g)
      with frm l obtain f where "d_file g = Str f" by blast
      with Some show ?thesis by (simp add: getSourceDetailsForLine_unmapped)
    qed
  qed
  have parsed: "mapE (getSourceDetailsForLine ?E projectRoot) (split_nl s)
                  = Inr (map ?pl (split_nl s))"
    by (rule mapE_total [OF each])
  have line: "reconstructLine (?pl l) = ?render l" if "l \<in> set (split_nl s)" for l
    using msg that by (cases "parseLine E l") simp_all
  have rec: "reconstructStack (map ?pl (split_nl s)) = join_nl (map ?render (split_nl s))"
    using line by (simp add: reconstructStack_def cong: map_cong)
  have exact: "reconstructStack (map ?pl (split_nl s)) = s"
    if "\<forall>l \<in> set (split_nl s). parseLine E l = None"
  proof -
    from that have "map ?render (split_nl s) = split_nl s"
      by (simp add: map_idI)
    with rec show ?thesis by (simp only: join_nl_split_nl)
  qed
  have "getSourceStack ?E (Str s) projectRoot
          = Inr (SourceStack (map ?pl (split_nl s)) (reconstructStack (map ?pl (split_nl s))))"
    by (simp add: getSourceStack_def parsed)
  with rec exact show ?thesis by blast
qed


theorem getSourceStack_unmapped_witness:
  "(\<exists>parsed.
      getSourceStack (exampleEnv\<lparr>getSourcePosition := (\<lambda>u g. None)\<rparr>)
          (Str (''Error: x'' @ [NL] @ ''  at foo (file.js:1:2)'')) ''/root''
        = Inr (SourceStack parsed (reconstructStack parsed)) \<and>
      reconstructStack parsed = ''Error: x'' @ [NL] @ ''  at foo (file.js:1:3)'') \<and>
   (\<exists>parsed.
      getSourceStack (exampleEnv\<lparr>getSourcePosition := (\<lambda>u g. None)\<rparr>)
          (Str (''Error: x'' @ [NL] @ ''caused by y'')) ''/root''
        = Inr (SourceStack parsed (reconstructStack parsed)) \<and>
      reconstructStack parsed = ''Error: x'' @ [NL] @ ''caused by y'')"
proof -
  have none: "parseLine exampleEnv ''Error: x'' = None" "parseLine exampleEnv ''caused by y'' = None"
    by (simp_all add: parseLine_def exampleEnv_def)
  have n: "string_of_int 1 = ''1''" "string_of_int 3 = ''3''"
    by (simp_all add: string_of_int_def string_of_nat.simps)
  have ws: "getWhitespace ''Error: x'' = []" "getWhitespace ''caused by y'' = []"
           "getWhitespace ''  at foo (file.js:1:2)'' = ''  ''"
    by (simp_all add: getWhitespace_def isSpace_def)
  have a: "\<exists>parsed.
      getSourceStack (exampleEnv\<lparr>getSourcePosition := (\<lambda>u g. None)\<rparr>)
          (Str (''Error: x'' @ [NL] @ ''  at foo (file.js:1:2)'')) ''/root''
        = Inr (SourceStack parsed (reconstructStack parsed)) \<and>
      reconstructStack parsed = ''Error: x'' @ [NL] @ ''  at foo (file.js:1:3)''"
    using getSourceStack_unmapped
            [of "''Error: x'' @ [NL] @ ''  at foo (file.js:1:2)''" exampleEnv "''/root''"]
          none exampleEnv_parses_file_line n ws
    by simp
  have b: "\<exists>parsed.
      getSourceStack (exampleEnv\<lparr>getSourcePosition := (\<lambda>u g. None)\<rparr>)
          (Str (''Error: x'' @ [NL] @ ''caused by y'')) ''/root''
        = Inr (SourceStack parsed (reconstructStack parsed)) \<and>
      reconstructStack parsed = ''Error: x'' @ [NL] @ ''caused by y''"
    using getSourceStack_unmapped
            [of "''Error: x'' @ [NL] @ ''caused by y''" exampleEnv "''/root''"]
          none ws
    by simp
  from a b show ?thesis by blast
qed

text \<open>
  The reconstruction is not the input when the stack has a frame line, whose column is
  displayed one higher, or a message line with leading white space, which is doubled.
\<close>

theorem getSourceStack_round_trip_counterexample:
  "getSourceStack (exampleEnv\<lparr>getSourcePosition := (\<lambda>u g. None)\<rparr>)
       (Str (''Error: x'' @ [NL] @ ''  at foo (file.js:1:2)'')) ''/root''
     = Inr (SourceStack
              [MessageLine ''Error: x'' [],
               FrameLine ''foo'' (Str ''file.js'') (Str ''file.js'') ''/root/file.js''
                 (Num 1) (Num 3) ''  '']
              (''Error: x'' @ [NL] @ ''  at foo (file.js:1:3)'')) \<and>
   ''Error: x'' @ [NL] @ ''  at foo (file.js:1:3)''
     \<noteq> ''Error: x'' @ [NL] @ ''  at foo (file.js:1:2)'' \<and>
   getSourceStack (exampleEnv\<lparr>getSourcePosition := (\<lambda>u g. None)\<rparr>)
       (Str (''Error: x'' @ [NL] @ ''  caused by y'')) ''/root''
     = Inr (SourceStack
              [MessageLine ''Error: x'' [], MessageLine ''  caused by y'' ''  '']
              (''Error: x'' @ [NL] @ ''    caused by y''))"
proof -
  have n: "string_of_int 1 = ''1''" "string_of_int 3 = ''3''"
    by (simp_all add: string_of_int_def string_of_nat.simps)
  have ws: "getWhitespace ''Error: x'' = []" "getWhitespace ''  caused by y'' = ''  ''"
           "getWhitespace ''  at foo (file.js:1:2)'' = ''  ''"
    by (simp_all add: getWhitespace_def isSpace_def)
  have env: "pathJoin exampleEnv ''/root'' ''file.js'' = ''/root/file.js''"
    by (simp add: exampleEnv_def)
  show ?thesis
    by (simp add: getSourceStack_def getSourceDetailsForLine_unmapped exampleEnv_parses_no_message
          exampleEnv_parses_file_line n ws env reconstructStack_def)
qed

section \<open>Replacing and normalizing the stack of an error\<close>

text \<open>
  C8. For an error whose stack is falsy (missing, null, the empty string or any other falsy
  value) and for any replacement, \<open>replaceStack\<close> returns the error as it is: no field
  changes, the stack stays falsy, and nothing is raised.
\<close>

theorem replaceStack_stackless:
  "\<not> truthy (stack e) \<Longrightarrow> replaceStack e newStack = Inr e"
  by (simp add: replaceStack_def)

theorem replaceStack_stackless_witness:
  "\<not> truthy (stack exampleErr) \<and>
   replaceStack exampleErr (Str ''  at foo (file.js:1:2)'') = Inr exampleErr"
  using replaceStack_stackless [of exampleErr "Str ''  at foo (file.js:1:2)''"]
  by (simp add: exampleErr_def)

lemma indexOf_from_NL:
  "indexOf_from i s [NL] =
     (if NL \<in> set s then int (i + length (takeWhile (\<lambda>c. c \<noteq> NL) s)) else - 1)"
  by (induction s arbitrary: i) auto

lemma first_line_with_NL:
  "NL \<in> set s \<Longrightarrow> slice0 s (indexOf s [NL]) = takeWhile (\<lambda>c. c \<noteq> NL) s"
  by (simp add: slice0_def indexOf_def indexOf_from_NL takeWhile_eq_take [symmetric])

lemma first_line_without_NL:
  "NL \<notin> set s \<Longrightarrow> slice0 s (indexOf s [NL]) = butlast s"
  by (simp add: slice0_def indexOf_def indexOf_from_NL butlast_conv_take nat_diff_distrib')

lemma includesStr_prefix: "prefix p s \<Longrightarrow> includesStr s p"
  by (cases s) auto

lemma first_line_after_prepend:
  "includesStr (slice0 (t @ NL # st) (indexOf (t @ NL # st) [NL])) (slice0 t (indexOf t [NL]))"
proof (cases "NL \<in> set t")
  case True
  then have "takeWhile (\<lambda>c. c \<noteq> NL) (t @ NL # st) = takeWhile (\<lambda>c. c \<noteq> NL) t"
    by (simp add: takeWhile_append1)
  with True show ?thesis
    by (simp add: first_line_with_NL includesStr_prefix)
next
  case False
  then have "\<forall>c \<in> set t. c \<noteq> NL" by blast
  then have "takeWhile (\<lambda>c. c \<noteq> NL) (t @ NL # st) = t"
    by (simp add: takeWhile_append2)
  moreover have "prefix (butlast t) t"
    by (simp add: prefixeq_butlast)
  ultimately show ?thesis using False
    by (simp add: first_line_with_NL first_line_without_NL includesStr_prefix)
qed

lemma normalizeStack_string:
  "stack e = Str st \<Longrightarrow>
   normalizeStack e =
     Inr (if includesStr (slice0 st (indexOf st [NL]))
               (slice0 (errToString e) (indexOf (errToString e) [NL]))
          then e else e\<lparr>stack := Str (errToString e @ NL # st)\<rparr>)"
  by (cases "st = []") (simp_all add: normalizeStack_def Let_def)

lemma errToString_stack_update: "errToString (e\<lparr>stack := v\<rparr>) = errToString e"
  by (simp add: errToString_def)

lemma normalizeStack_falsy:
  "\<not> truthy (stack e) \<Longrightarrow>
   normalizeStack e =
     Inr (if slice0 (errToString e) (indexOf (errToString e) [NL]) = [] then e
          else e\<lparr>stack := Str (errToString e @ [NL])\<rparr>)"
proof -
  have "includesStr [] p = (p = [])" for p by simp
  moreover have "slice0 [] (indexOf [] [NL]) = []"
    by (simp add: slice0_def)
  moreover assume "\<not> truthy (stack e)"
  ultimately show ?thesis
    by (simp add: normalizeStack_def Let_def)
qed

text \<open>
  C6. For an error whose stack is a string, \<open>normalizeStack\<close> raises nothing and applying it
  to its own result changes nothing: the second application returns the error the first
  one returned, stack included.
\<close>

theorem normalizeStack_idempotent:
  "stack e = Str s \<Longrightarrow> \<exists>e1. normalizeStack e = Inr e1 \<and> normalizeStack e1 = Inr e1"
proof -
  assume st: "stack e = Str s"
  let ?t = "errToString e"
  show ?thesis
  proof (cases "includesStr (slice0 s (indexOf s [NL])) (slice0 ?t (indexOf ?t [NL]))")
    case True
    with st have "normalizeStack e = Inr e" by (simp add: normalizeStack_string)
    then show ?thesis by simp
  next
    case False
    let ?e1 = "e\<lparr>stack := Str (?t @ NL # s)\<rparr>"
    from False st have "normalizeStack e = Inr ?e1" by (simp add: normalizeStack_string)
    moreover have "normalizeStack ?e1 = Inr ?e1"
      using normalizeStack_string [of ?e1 "?t @ NL # s"] first_line_after_prepend [of ?t s]
      by (simp add: errToString_stack_update)
    ultimately show ?thesis by simp
  qed
qed



theorem normalizeStack_idempotent_witness:
  "\<exists>e1. normalizeStack (exampleErr\<lparr>stack := Str ''  at foo (file.js:1:2)''\<rparr>) = Inr e1 \<and>
        normalizeStack e1 = Inr e1"
  using normalizeStack_idempotent
          [of "exampleErr\<lparr>stack := Str ''  at foo (file.js:1:2)''\<rparr>" "''  at foo (file.js:1:2)''"]
  by simp

text \<open>
  C10, as amended. For an error whose stack is falsy and whose first textual line, as
  \<open>normalizeStack\<close> computes it (the text of \<open>toString\<close> before its first line feed, or that
  text without its last character when it has no line feed), is not empty,
  \<open>normalizeStack\<close> sets the stack to the text of \<open>toString\<close> followed by a line feed.
\<close>

theorem normalizeStack_stackless:
  "\<not> truthy (stack e) \<Longrightarrow>
   slice0 (errToString e) (indexOf (errToString e) [NL]) \<noteq> [] \<Longrightarrow>
   normalizeStack e = Inr (e\<lparr>stack := Str (errToString e @ NL # [])\<rparr>)"
  by (simp add: normalizeStack_falsy)

theorem normalizeStack_stackless_witness:
  "\<not> truthy (stack exampleErr) \<and>
   normalizeStack exampleErr = Inr (exampleErr\<lparr>stack := Str (''Error: x'' @ [NL])\<rparr>)"
  using normalizeStack_stackless [of exampleErr]
  by (simp add: exampleErr_def errToString_def slice0_def indexOf_def)

text \<open>
  An error with an empty name and an empty message and no stack is returned as it is: the
  empty first line is contained in the empty stack, and the stack stays undefined.
\<close>

theorem normalizeStack_stackless_counterexample:
  "\<not> truthy (stack (exampleErr\<lparr>name := [], message := []\<rparr>)) \<and>
   normalizeStack (exampleErr\<lparr>name := [], message := []\<rparr>)
     = Inr (exampleErr\<lparr>name := [], message := []\<rparr>) \<and>
   stack (exampleErr\<lparr>name := [], message := []\<rparr>) = Undefined"
  by (simp add: normalizeStack_def exampleErr_def errToString_def slice0_def indexOf_def)

text \<open>
  C2, as amended. For an error whose stack is not a string, \<open>getSourceStack\<close> on that stack
  returns the empty object, and \<open>getCodeFrame\<close>, which does not read the stack, returns
  undefined when the error carries neither a code frame nor a parsed stack. When the stack
  is moreover falsy (missing, null, and the like), \<open>hasStack\<close> returns false, \<open>replaceStack\<close>
  returns the error as it is for any replacement, and \<open>normalizeStack\<close> returns the error:
  as it is when the first textual line it computes is empty, and otherwise with the stack
  set to the text of \<open>toString\<close> followed by a line feed. None of them raises.
\<close>

theorem malformed_stack_defaults:
  assumes "\<forall>s. stack e \<noteq> Str s"
  shows "getSourceStack E (stack e) projectRoot = Inr EmptyObject \<and>
         getCodeFrame E (e\<lparr>stack := v\<rparr>) = getCodeFrame E e \<and>
         (codeFrame e = None \<and> parsedStack e = None \<longrightarrow> getCodeFrame E e = Inr None) \<and>
         (\<not> truthy (stack e) \<longrightarrow>
            hasStack e = Inr False \<and>
            replaceStack e newStack = Inr e \<and>
            normalizeStack e =
              Inr (if slice0 (errToString e) (indexOf (errToString e) [NL]) = [] then e
                   else e\<lparr>stack := Str (errToString e @ [NL])\<rparr>))"
proof -
  have "getSourceStack E (stack e) projectRoot = Inr EmptyObject"
    using assms by (cases "stack e") (simp_all add: getSourceStack_def)
  moreover have "getCodeFrame E (e\<lparr>stack := v\<rparr>) = getCodeFrame E e"
    by (simp add: getCodeFrame_def split: option.splits)
  moreover have "codeFrame e = None \<and> parsedStack e = None \<longrightarrow> getCodeFrame E e = Inr None"
    by (simp add: getCodeFrame_def)
  moreover have "hasStack e = Inr False" if "\<not> truthy (stack e)"
    using that by (simp add: hasStack_def)
  moreover have "replaceStack e newStack = Inr e" if "\<not> truthy (stack e)"
    using that by (simp add: replaceStack_def)
  moreover have "normalizeStack e =
                   Inr (if slice0 (errToString e) (indexOf (errToString e) [NL]) = [] then e
                        else e\<lparr>stack := Str (errToString e @ [NL])\<rparr>)"
    if "\<not> truthy (stack e)"
    using that by (rule normalizeStack_falsy)
  ultimately show ?thesis by blast
qed

theorem malformed_stack_defaults_witness:
  "(getSourceStack exampleEnv (stack exampleErr) ''/root'' = Inr EmptyObject \<and>
    getCodeFrame exampleEnv exampleErr = Inr None \<and>
    hasStack exampleErr = Inr False \<and>
    replaceStack exampleErr (Str ''  at foo (file.js:1:2)'') = Inr exampleErr \<and>
    normalizeStack exampleErr = Inr (exampleErr\<lparr>stack := Str (''Error: x'' @ [NL])\<rparr>)) \<and>
   (getSourceStack exampleEnv (stack (exampleErr\<lparr>stack := Num 5\<rparr>)) ''/root''
      = Inr EmptyObject \<and>
    getCodeFrame exampleEnv (exampleErr\<lparr>stack := Num 5\<rparr>) = Inr None)"
proof -
  have a: "getSourceStack exampleEnv (stack exampleErr) ''/root'' = Inr EmptyObject \<and>
           getCodeFrame exampleEnv exampleErr = Inr None \<and>
           hasStack exampleErr = Inr False \<and>
           replaceStack exampleErr (Str ''  at foo (file.js:1:2)'') = Inr exampleErr \<and>
           normalizeStack exampleErr = Inr (exampleErr\<lparr>stack := Str (''Error: x'' @ [NL])\<rparr>)"
    using malformed_stack_defaults
            [of exampleErr exampleEnv "''/root''" Undefined "Str ''  at foo (file.js:1:2)''"]
    by (simp add: exampleErr_def errToString_def slice0_def indexOf_def)
  have b: "getSourceStack exampleEnv (stack (exampleErr\<lparr>stack := Num 5\<rparr>)) ''/root''
             = Inr EmptyObject \<and>
           getCodeFrame exampleEnv (exampleErr\<lparr>stack := Num 5\<rparr>) = Inr None"
    using malformed_stack_defaults
            [of "exampleErr\<lparr>stack := Num 5\<rparr>" exampleEnv "''/root''" Undefined
                "Str ''  at foo (file.js:1:2)''"]
    by (simp add: exampleErr_def)
  from a b show ?thesis by blast
qed

text \<open>
  \<open>isFromCypress\<close> splits the stack without a guard and raises on an error without a stack;
  \<open>hasStack\<close> and \<open>normalizeStack\<close> raise on a stack that is a number; and \<open>normalizeStack\<close>
  does not return a stackless error unchanged.
\<close>

theorem malformed_stack_counterexample:
  "isFromCypress exampleErr = Inl TypeError \<and>
   hasStack (exampleErr\<lparr>stack := Num 5\<rparr>) = Inl TypeError \<and>
   normalizeStack (exampleErr\<lparr>stack := Num 5\<rparr>) = Inl TypeError \<and>
   normalizeStack exampleErr = Inr (exampleErr\<lparr>stack := Str (''Error: x'' @ [NL])\<rparr>)"
  by (simp add: isFromCypress_def hasStack_def normalizeStack_def exampleErr_def
        errToString_def slice0_def indexOf_def)

end
